theory Spec2Isabelle
  imports Complex_Main
begin

section \<open>Numbers\<close>

text \<open>
  The program computes with Python numbers: the integer literals \<open>0\<close>, \<open>10\<close>, \<open>100\<close>, \<open>1000\<close>
  and the floats that \<open>float(...)\<close> and the arithmetic on them produce.  Every such value is a
  rational number.  A float operation returns the exact result rounded to the nearest
  binary64 value, so each operation of the model is the exact operation followed by a
  rounding function \<open>rnd\<close>.  The program runs with \<open>rnd = binary64\<close> (53 significant bits,
  ties to even; the exponent range is not bounded here, so overflow to infinity and
  subnormal numbers are outside the model).  Exact arithmetic is \<open>rnd = exact\<close>.
\<close>

type_synonym rounding = "rat \<Rightarrow> rat"

definition round_half_even :: "rat \<Rightarrow> int" where
  "round_half_even m =
     (let f = \<lfloor>m\<rfloor>; d = m - of_int f in
      if d < 1 / 2 then f else if 1 / 2 < d then f + 1 else if even f then f else f + 1)"

definition pow2 :: "int \<Rightarrow> rat" where
  "pow2 e = (if 0 \<le> e then 2 ^ nat e else 1 / 2 ^ nat (- e))"

text \<open>The number of binary digits of a natural number.\<close>

fun bit_length :: "nat \<Rightarrow> nat" where
  "bit_length n = (if n = 0 then 0 else Suc (bit_length (n div 2)))"

declare bit_length.simps [simp del]

text \<open>For \<open>0 < a\<close>, the exponent \<open>e\<close> with \<open>2 ^ e \<le> a < 2 ^ (e + 1)\<close>.\<close>

definition ilog2 :: "rat \<Rightarrow> int" where
  "ilog2 a =
     (if 1 \<le> a then int (bit_length (nat \<lfloor>a\<rfloor>)) - 1
      else - int (bit_length (nat (\<lceil>1 / a\<rceil> - 1))))"

definition binary64 :: rounding where
  "binary64 x =
     (if x = 0 then 0
      else let a = \<bar>x\<bar>; e = ilog2 a; u = pow2 (e - 52) in
           sgn x * of_int (round_half_even (a / u)) * u)"

definition exact :: rounding where
  "exact x = x"

section \<open>Data model\<close>

text \<open>
  The dictionaries with the four keys \<open>kcal\<close>, \<open>proteines\<close>, \<open>lipides\<close>, \<open>glucides\<close> are a record;
  so are an entry of the journal and the value stored for a day in \<open>daily_data\<close>.
\<close>

record macros =
  kcal :: rat
  proteines :: rat
  lipides :: rat
  glucides :: rat

record entry =
  food :: string
  quantity :: rat
  macros :: macros
  time :: string

record day =
  entries :: "entry list"
  totals :: macros

text \<open>The two globals of the module: \<open>daily_data\<close>, keyed by the date string, and \<open>last_entry\<close>.\<close>

record bot =
  daily_data :: "string \<rightharpoonup> day"
  last_entry :: "entry option"

definition initial_state :: bot where
  "initial_state = \<lparr>daily_data = Map.empty, last_entry = None\<rparr>"

text \<open>What \<open>parse_food_entry\<close> returns for one item: \<open>(food_name, grams, macros)\<close>, where
  \<open>macros\<close> is \<open>None\<close> for a food that is not in the base.\<close>

type_synonym parsed = "string \<times> rat \<times> macros option"

datatype error = KeyError

datatype reply =
    NotUnderstood
  | Recorded "string list"
  | NothingToUndo
  | Undone entry
  | QuickAdded entry
  | BadFormat
  | Ignored
  | Usage
  | BaseMode

section \<open>The journal\<close>

definition zero_totals :: macros where
  "zero_totals = \<lparr>kcal = 0, proteines = 0, lipides = 0, glucides = 0\<rparr>"

definition init_day :: "string \<Rightarrow> bot \<Rightarrow> bot" where
  "init_day date_key s =
     (case daily_data s date_key of
        Some _ \<Rightarrow> s
      | None \<Rightarrow> s\<lparr>daily_data := (daily_data s)(date_key \<mapsto> \<lparr>entries = [], totals = zero_totals\<rparr>)\<rparr>)"

text \<open>\<open>totals[key] += macros[key]\<close> and \<open>totals[key] -= macros[key]\<close> for the four keys.\<close>

definition macros_add :: "rounding \<Rightarrow> macros \<Rightarrow> macros \<Rightarrow> macros" where
  "macros_add rnd t m =
     \<lparr>kcal = rnd (kcal t + kcal m), proteines = rnd (proteines t + proteines m),
      lipides = rnd (lipides t + lipides m), glucides = rnd (glucides t + glucides m)\<rparr>"

definition macros_sub :: "rounding \<Rightarrow> macros \<Rightarrow> macros \<Rightarrow> macros" where
  "macros_sub rnd t m =
     \<lparr>kcal = rnd (kcal t - kcal m), proteines = rnd (proteines t - proteines m),
      lipides = rnd (lipides t - lipides m), glucides = rnd (glucides t - glucides m)\<rparr>"

text \<open>
  The statements shared by both paths that add to the journal:
  \<open>daily_data[today]["entries"].append(entry)\<close>, \<open>last_entry = entry\<close> and the loop over
  the four keys of the totals.  \<open>daily_data[today]\<close> raises \<open>KeyError\<close> for a missing day.
\<close>

definition append_entry :: "rounding \<Rightarrow> string \<Rightarrow> entry \<Rightarrow> bot \<Rightarrow> error + bot" where
  "append_entry rnd today e s =
     (case daily_data s today of
        None \<Rightarrow> Inl KeyError
      | Some d \<Rightarrow>
          Inr (s\<lparr>daily_data := (daily_data s)(today \<mapsto>
                    \<lparr>entries = entries d @ [e], totals = macros_add rnd (totals d) (macros e)\<rparr>),
                 last_entry := Some e\<rparr>))"

text \<open>The body of the loop of \<open>handle_food_message\<close> over the parsed declarations; the
  second component collects \<open>not_found\<close>.\<close>

definition record_declaration ::
  "rounding \<Rightarrow> string \<Rightarrow> string \<Rightarrow> parsed \<Rightarrow> bot \<times> string list \<Rightarrow> error + bot \<times> string list" where
  "record_declaration rnd today now decl acc =
     (case (decl, acc) of
        ((food_name, grams, Some m), (s, not_found)) \<Rightarrow>
          (case append_entry rnd today
                  \<lparr>food = food_name, quantity = grams, macros = m, time = now\<rparr> s of
             Inl err \<Rightarrow> Inl err
           | Inr s' \<Rightarrow> Inr (s', not_found))
      | ((food_name, grams, None), (s, not_found)) \<Rightarrow> Inr (s, not_found @ [food_name]))"

fun record_declarations ::
  "rounding \<Rightarrow> string \<Rightarrow> string \<Rightarrow> parsed list \<Rightarrow> bot \<times> string list \<Rightarrow> error + bot \<times> string list" where
  "record_declarations rnd today now [] acc = Inr acc"
| "record_declarations rnd today now (decl # decls) acc =
     (case record_declaration rnd today now decl acc of
        Inl err \<Rightarrow> Inl err
      | Inr acc' \<Rightarrow> record_declarations rnd today now decls acc')"

text \<open>\<open>handle_food_message\<close> after the call of the parser, whose result is \<open>parsed\<close>.\<close>

definition record_parsed ::
  "rounding \<Rightarrow> string \<Rightarrow> string \<Rightarrow> parsed list \<Rightarrow> bot \<Rightarrow> error + reply \<times> bot" where
  "record_parsed rnd today now parsed s =
     (let s1 = init_day today s in
      if parsed = [] then Inr (NotUnderstood, s1)
      else case record_declarations rnd today now parsed (s1, []) of
             Inl err \<Rightarrow> Inl err
           | Inr (s2, not_found) \<Rightarrow> Inr (Recorded not_found, s2))"

text \<open>The handler of \<open>/undo\<close>.\<close>

definition undo :: "rounding \<Rightarrow> string \<Rightarrow> bot \<Rightarrow> error + reply \<times> bot" where
  "undo rnd today s =
     (let s1 = init_day today s in
      case daily_data s1 today of
        None \<Rightarrow> Inl KeyError
      | Some d \<Rightarrow>
          if entries d = [] then Inr (NothingToUndo, s1)
          else let l = last (entries d) in
               Inr (Undone l,
                    s1\<lparr>daily_data := (daily_data s1)(today \<mapsto>
                          \<lparr>entries = butlast (entries d),
                           totals = macros_sub rnd (totals d) (macros l)\<rparr>)\<rparr>))"

text \<open>
  \<open>format(x, '.0f')\<close> for a number that is not negative: the nearest integer, ties to
  even, in decimal digits.
\<close>

fun digits :: "nat \<Rightarrow> string" where
  "digits n = (if n < 10 then [char_of (48 + n)] else digits (n div 10) @ [char_of (48 + n mod 10)])"

definition format_0f :: "rat \<Rightarrow> string" where
  "format_0f x = digits (nat (round_half_even x))"

text \<open>
  The handler of \<open>/add\<close> in its quick mode, after the text has been matched:
  \<open>grams\<close> and the four numbers are what the two patterns extracted.
\<close>

definition quick_add :: "rounding \<Rightarrow> string \<Rightarrow> string \<Rightarrow> rat \<Rightarrow> macros \<Rightarrow> bot \<Rightarrow> error + reply \<times> bot" where
  "quick_add rnd today now grams m s =
     (let s1 = init_day today s;
          e = \<lparr>food = ''ajout manuel ('' @ format_0f grams @ ''g)'', quantity = grams,
               macros = m, time = now\<rparr>
      in case append_entry rnd today e s1 of
           Inl err \<Rightarrow> Inl err
         | Inr s2 \<Rightarrow> Inr (QuickAdded e, s2))"

text \<open>
  \<open>midnight_reset\<close>.  \<open>strptime\<close> is the library's \<open>datetime.strptime(date_key, "%Y-%m-%d")\<close>:
  the day number of the date at midnight, or \<open>None\<close> where it raises.  \<open>now\<close> is the local
  wall clock: the day number of today and the microseconds since midnight.  The cutoff is
  \<open>now\<close> four days earlier, at the same time of day, and the comparison is the one of naive
  datetimes.
\<close>

definition before_cutoff :: "(string \<Rightarrow> int option) \<Rightarrow> int \<times> nat \<Rightarrow> string \<Rightarrow> bool" where
  "before_cutoff strptime now date_key =
     (case strptime date_key of
        None \<Rightarrow> False
      | Some date \<Rightarrow> date < fst now - 4 \<or> (date = fst now - 4 \<and> 0 < snd now))"

definition midnight_reset :: "(string \<Rightarrow> int option) \<Rightarrow> int \<times> nat \<Rightarrow> bot \<Rightarrow> bot" where
  "midnight_reset strptime now s =
     s\<lparr>daily_data := (\<lambda>date_key. if before_cutoff strptime now date_key then None
                                    else daily_data s date_key)\<rparr>"

subsection \<open>Runs of the bot\<close>

text \<open>
  One operation on the journal: a food message whose parse is given, a quick add, an undo,
  a read of the status (which only creates the day) and the reset at midnight.
\<close>

datatype op =
    Message string string "parsed list"
  | QuickAdd string string rat macros
  | Undo string
  | Status string
  | Reset "string \<Rightarrow> int option" "int \<times> nat"

fun step :: "rounding \<Rightarrow> op \<Rightarrow> bot \<Rightarrow> error + bot" where
  "step rnd (Message today now parsed) s = map_sum id snd (record_parsed rnd today now parsed s)"
| "step rnd (QuickAdd today now grams m) s = map_sum id snd (quick_add rnd today now grams m s)"
| "step rnd (Undo today) s = map_sum id snd (undo rnd today s)"
| "step rnd (Status today) s = Inr (init_day today s)"
| "step rnd (Reset strptime now) s = Inr (midnight_reset strptime now s)"

fun run :: "rounding \<Rightarrow> op list \<Rightarrow> bot \<Rightarrow> error + bot" where
  "run rnd [] s = Inr s"
| "run rnd (x # xs) s = (case step rnd x s of Inl err \<Rightarrow> Inl err | Inr s' \<Rightarrow> run rnd xs s')"

fun is_undo :: "op \<Rightarrow> bool" where
  "is_undo (Undo today) = True"
| "is_undo _ = False"

text \<open>The sum of a list of macros as Python's \<open>sum\<close> computes it: from \<open>0\<close>, left to right.\<close>

definition macros_sum :: "rounding \<Rightarrow> macros list \<Rightarrow> macros" where
  "macros_sum rnd ms = foldl (macros_add rnd) zero_totals ms"

definition totals_ok :: "rounding \<Rightarrow> day \<Rightarrow> bool" where
  "totals_ok rnd d = (totals d = macros_sum rnd (map macros (entries d)))"

definition invariant :: "rounding \<Rightarrow> bot \<Rightarrow> bool" where
  "invariant rnd s = (\<forall>date_key d. daily_data s date_key = Some d \<longrightarrow> totals_ok rnd d)"

text \<open>
  A day of the journal as the accessors see it: every read goes through \<open>init_day\<close>, so a
  day that is not stored yet reads as the empty day with all totals zero.
\<close>

definition day_of :: "bot \<Rightarrow> string \<Rightarrow> day" where
  "day_of s date_key =
     (case daily_data s date_key of
        None \<Rightarrow> \<lparr>entries = [], totals = zero_totals\<rparr>
      | Some d \<Rightarrow> d)"

text \<open>A food message with one declaration, followed at once by \<open>/undo\<close>.\<close>

definition append_then_undo ::
  "rounding \<Rightarrow> string \<Rightarrow> string \<Rightarrow> parsed \<Rightarrow> bot \<Rightarrow> error + reply \<times> bot" where
  "append_then_undo rnd today now decl s =
     (case record_parsed rnd today now [decl] s of
        Inl err \<Rightarrow> Inl err
      | Inr (r, s1) \<Rightarrow> undo rnd today s1)"

text \<open>A quick add, followed at once by \<open>/undo\<close>.\<close>

definition quick_add_then_undo ::
  "rounding \<Rightarrow> string \<Rightarrow> string \<Rightarrow> rat \<Rightarrow> macros \<Rightarrow> bot \<Rightarrow> error + reply \<times> bot" where
  "quick_add_then_undo rnd today now grams m s =
     (case quick_add rnd today now grams m s of
        Inl err \<Rightarrow> Inl err
      | Inr (r, s1) \<Rightarrow> undo rnd today s1)"

text \<open>The totals of a day after a run, beside the sum of the macros of its entries.\<close>

definition check_day :: "rounding \<Rightarrow> string \<Rightarrow> error + bot \<Rightarrow> (macros \<times> macros) option" where
  "check_day rnd date_key r =
     (case r of
        Inl err \<Rightarrow> None
      | Inr s \<Rightarrow> Some (totals (day_of s date_key),
                       macros_sum rnd (map macros (entries (day_of s date_key)))))"

text \<open>The totals of a day after a handler has answered.\<close>

definition totals_after :: "string \<Rightarrow> error + reply \<times> bot \<Rightarrow> macros option" where
  "totals_after date_key r =
     (case r of Inl err \<Rightarrow> None | Inr (_, s) \<Rightarrow> Some (totals (day_of s date_key)))"

section \<open>Text\<close>

text \<open>
  Strings are lists of characters, and the text is taken to be ASCII: on it the classes
  \<open>\d\<close>, \<open>\s\<close>, \<open>\w\<close> of the \<open>re\<close> module and the methods \<open>lower\<close> and \<open>strip\<close> are the
  ones below.
\<close>

definition newline :: char where
  "newline = CHR 0x0A"

definition is_digit :: "char \<Rightarrow> bool" where
  "is_digit c = (c \<in> set ''0123456789'')"

definition is_space :: "char \<Rightarrow> bool" where
  "is_space c =
     (c \<in> set [CHR 0x09, CHR 0x0A, CHR 0x0B, CHR 0x0C, CHR 0x0D,
                CHR 0x1C, CHR 0x1D, CHR 0x1E, CHR 0x1F, CHR 0x20])"

definition is_word :: "char \<Rightarrow> bool" where
  "is_word c =
     (c \<in> set ''abcdefghijklmnopqrstuvwxyzABCDEFGHIJKLMNOPQRSTUVWXYZ0123456789_'')"

definition not_newline :: "char \<Rightarrow> bool" where
  "not_newline c = (c \<noteq> newline)"

definition lower_char :: "char \<Rightarrow> char" where
  "lower_char c =
     (case map_of (zip ''ABCDEFGHIJKLMNOPQRSTUVWXYZ'' ''abcdefghijklmnopqrstuvwxyz'') c of
        Some l \<Rightarrow> l
      | None \<Rightarrow> c)"

definition lower :: "string \<Rightarrow> string" where
  "lower s = map lower_char s"

definition strip :: "string \<Rightarrow> string" where
  "strip s = rev (dropWhile is_space (rev (dropWhile is_space s)))"

text \<open>\<open>a in b\<close> on strings: \<open>a\<close> occurs in \<open>b\<close> as a contiguous piece.\<close>

fun occurs_in :: "string \<Rightarrow> string \<Rightarrow> bool" where
  "occurs_in a [] = (a = [])"
| "occurs_in a (x # xs) = (take (length a) (x # xs) = a \<or> occurs_in a xs)"

text \<open>\<open>s.replace(',', '.')\<close>.\<close>

definition replace_comma :: "string \<Rightarrow> string" where
  "replace_comma s = map (\<lambda>c. if c = CHR '','' then CHR ''.'' else c) s"

text \<open>
  \<open>float(s)\<close> for the strings the patterns capture, digits with at most one point and
  digits behind it: the decimal value, rounded.
\<close>

definition digit_value :: "char \<Rightarrow> nat" where
  "digit_value c = (case map_of (zip ''0123456789'' [0 ..< 10]) c of Some d \<Rightarrow> d | None \<Rightarrow> 0)"

definition digits_value :: "string \<Rightarrow> nat" where
  "digits_value s = foldl (\<lambda>n c. 10 * n + digit_value c) 0 s"

definition decimal_value :: "string \<Rightarrow> rat" where
  "decimal_value s =
     (let whole = takeWhile is_digit s; frac = drop (Suc (length whole)) s in
      of_nat (digits_value whole) + of_nat (digits_value frac) / 10 ^ length frac)"

definition float_of :: "rounding \<Rightarrow> string \<Rightarrow> rat" where
  "float_of rnd s = rnd (decimal_value s)"

subsection \<open>Regular expressions\<close>

text \<open>
  The patterns of the program use words, single characters of a class, classes and their
  repetitions, sequences, alternatives, optional parts, groups, \<open>^\<close>, \<open>$\<close> and \<open>\b\<close>.
  A position in the subject is the text before it (reversed), the text after it and the
  groups captured so far.  \<open>rmatch\<close> lists the positions a pattern can end at, in the
  order in which the backtracking matcher of \<open>re\<close> tries them: a greedy repetition from
  the longest to the shortest, a lazy one from the shortest, an alternative from left to
  right, an optional part first present and then absent.  The match that \<open>re\<close> reports is
  the first of the list.
\<close>

datatype regex =
    Lit string
  | One "char \<Rightarrow> bool"
  | Many "char \<Rightarrow> bool"
  | Many1 "char \<Rightarrow> bool"
  | Few1 "char \<Rightarrow> bool"
  | Seq regex regex
  | Alt regex regex
  | Opt regex
  | Grp nat regex
  | WordB
  | Bol
  | Eol

type_synonym position = "string \<times> string \<times> (nat \<times> string) list"

definition advance :: "position \<Rightarrow> nat \<Rightarrow> position" where
  "advance pos n = (case pos of (seen, rest, groups) \<Rightarrow> (rev (take n rest) @ seen, drop n rest, groups))"

definition at_word_boundary :: "string \<Rightarrow> string \<Rightarrow> bool" where
  "at_word_boundary seen rest =
     ((case seen of [] \<Rightarrow> False | c # _ \<Rightarrow> is_word c) \<noteq>
      (case rest of [] \<Rightarrow> False | c # _ \<Rightarrow> is_word c))"

fun rmatch :: "regex \<Rightarrow> position \<Rightarrow> position list" where
  "rmatch (Lit w) pos =
     (if take (length w) (fst (snd pos)) = w then [advance pos (length w)] else [])"
| "rmatch (One c) pos =
     (case fst (snd pos) of [] \<Rightarrow> [] | x # xs \<Rightarrow> if c x then [advance pos 1] else [])"
| "rmatch (Many c) pos =
     map (advance pos) (rev [0 ..< Suc (length (takeWhile c (fst (snd pos))))])"
| "rmatch (Many1 c) pos =
     map (advance pos) (rev [1 ..< Suc (length (takeWhile c (fst (snd pos))))])"
| "rmatch (Few1 c) pos =
     map (advance pos) [1 ..< Suc (length (takeWhile c (fst (snd pos))))]"
| "rmatch (Seq a b) pos = concat (map (rmatch b) (rmatch a pos))"
| "rmatch (Alt a b) pos = rmatch a pos @ rmatch b pos"
| "rmatch (Opt a) pos = rmatch a pos @ [pos]"
| "rmatch (Grp n a) pos =
     map (\<lambda>(seen, rest, groups).
            (seen, rest, (n, rev (take (length seen - length (fst pos)) seen)) # groups))
         (rmatch a pos)"
| "rmatch WordB pos = (if at_word_boundary (fst pos) (fst (snd pos)) then [pos] else [])"
| "rmatch Bol pos = (if fst pos = [] then [pos] else [])"
| "rmatch Eol pos = (if fst (snd pos) = [] \<or> fst (snd pos) = [newline] then [pos] else [])"

text \<open>\<open>re.match(pattern, s)\<close>: the groups of the first match from the start of \<open>s\<close>.\<close>

definition re_match :: "regex \<Rightarrow> string \<Rightarrow> (nat \<times> string) list option" where
  "re_match pattern s =
     (case rmatch pattern ([], s, []) of
        [] \<Rightarrow> None
      | (seen, rest, groups) # _ \<Rightarrow> Some groups)"

text \<open>\<open>match.group(n) or ''\<close>, for the groups of a match.\<close>

definition group_or_empty :: "(nat \<times> string) list \<Rightarrow> nat \<Rightarrow> string" where
  "group_or_empty m n = (case map_of m n of None \<Rightarrow> [] | Some g \<Rightarrow> g)"

text \<open>
  \<open>re.split(pattern, s)\<close> for a pattern without groups: scan from the left; where the
  pattern matches, close the piece and go on behind the match; elsewhere move one
  character on.  The splitting pattern of the program never matches the empty string;
  an empty match is passed over here.
\<close>

fun re_split_from :: "regex \<Rightarrow> string \<Rightarrow> string \<Rightarrow> string \<Rightarrow> string list" where
  "re_split_from pattern seen piece [] = [rev piece]"
| "re_split_from pattern seen piece (c # cs) =
     (case rmatch pattern (seen, c # cs, []) of
        [] \<Rightarrow> re_split_from pattern (c # seen) (c # piece) cs
      | pos # _ \<Rightarrow>
          if length (fst (snd pos)) < length (c # cs)
          then rev piece # re_split_from pattern (fst pos) [] (fst (snd pos))
          else re_split_from pattern (c # seen) (c # piece) cs)"

definition re_split :: "regex \<Rightarrow> string \<Rightarrow> string list" where
  "re_split pattern s = re_split_from pattern [] [] s"

section \<open>The parser of food messages\<close>

text \<open>
  The module \<open>foods_database\<close> is not part of the sources at hand.  What the parser uses
  of it is a parameter: \<open>get_food_info\<close>, which gives the macros of a food for 100 g or
  \<open>None\<close>, and the dictionary \<open>STANDARD_UNITS\<close> with its items in their order.
\<close>

record base =
  get_food_info :: "string \<Rightarrow> (rat \<times> rat \<times> rat \<times> rat) option"
  STANDARD_UNITS :: "(string \<times> rat) list"

text \<open>The separators of items: \<^verbatim>\<open>[,\n]+|\bet\b\<close>.\<close>

definition is_comma_or_newline :: "char \<Rightarrow> bool" where
  "is_comma_or_newline c = (c = CHR '','' \<or> c = newline)"

definition separator :: regex where
  "separator = Alt (Many1 is_comma_or_newline) (Seq WordB (Seq (Lit ''et'') WordB))"

text \<open>The number \<^verbatim>\<open>\d+(?:[.,]\d+)?\<close> and the units \<^verbatim>\<open>g|gr|grammes?|ml|cl|l|kg\<close>.\<close>

definition is_point_or_comma :: "char \<Rightarrow> bool" where
  "is_point_or_comma c = (c = CHR ''.'' \<or> c = CHR '','')"

definition number :: regex where
  "number = Seq (Many1 is_digit) (Opt (Seq (One is_point_or_comma) (Many1 is_digit)))"

definition units :: regex where
  "units =
     Alt (Lit ''g'') (Alt (Lit ''gr'') (Alt (Seq (Lit ''gramme'') (Opt (Lit ''s'')))
       (Alt (Lit ''ml'') (Alt (Lit ''cl'') (Alt (Lit ''l'') (Lit ''kg''))))))"

text \<open>\<^verbatim>\<open>^(\d+(?:[.,]\d+)?)\s*(g|gr|grammes?|ml|cl|l|kg)?\s*(?:de\s+|d\')?(.+)$\<close>\<close>

definition pattern :: regex where
  "pattern =
     Seq Bol (Seq (Grp 1 number) (Seq (Many is_space) (Seq (Opt (Grp 2 units))
       (Seq (Many is_space)
         (Seq (Opt (Alt (Seq (Lit ''de'') (Many1 is_space)) (Lit [CHR ''d'', CHR 0x27])))
           (Seq (Grp 3 (Many1 not_newline)) Eol))))))"

text \<open>\<^verbatim>\<open>^(.+?)\s+(\d+(?:[.,]\d+)?)\s*(g|gr|grammes?|ml|cl|l|kg)?$\<close>\<close>

definition pattern_inv :: regex where
  "pattern_inv =
     Seq Bol (Seq (Grp 1 (Few1 not_newline)) (Seq (Many1 is_space) (Seq (Grp 2 number)
       (Seq (Many is_space) (Seq (Opt (Grp 3 units)) Eol)))))"

text \<open>
  The two attempts on one item: \<open>(food_name, quantity, unit)\<close> with the quantity still as
  text, or \<open>None\<close> where the program logs the warning and goes on.
\<close>

definition match_item :: "string \<Rightarrow> (string \<times> string \<times> string) option" where
  "match_item item =
     (case re_match pattern item of
        Some m \<Rightarrow> Some (strip (group_or_empty m 3), group_or_empty m 1, group_or_empty m 2)
      | None \<Rightarrow>
          (case re_match pattern_inv item of
             Some m \<Rightarrow> Some (strip (group_or_empty m 1), group_or_empty m 2, group_or_empty m 3)
           | None \<Rightarrow> None))"

text \<open>The loop over \<open>STANDARD_UNITS.items()\<close> with its \<open>break\<close>.\<close>

fun find_unit :: "(string \<times> rat) list \<Rightarrow> string \<Rightarrow> rat option" where
  "find_unit [] food_name = None"
| "find_unit ((std_name, std_grams) # rest) food_name =
     (if occurs_in std_name food_name \<or> occurs_in food_name std_name then Some std_grams
      else find_unit rest food_name)"

text \<open>
  The conversion to grams.  \<open>if unit_grams:\<close> is false for \<open>None\<close> and for the number
  zero.  \<open>fallback\<close> is what the program does when the loop gave nothing: the standard
  unit under the exact name of a food that is in the base.
\<close>

definition fallback :: "rounding \<Rightarrow> base \<Rightarrow> rat \<Rightarrow> string \<Rightarrow> rat" where
  "fallback rnd db qty food_name =
     (case (get_food_info db food_name, map_of (STANDARD_UNITS db) food_name) of
        (Some food_info, Some std_grams) \<Rightarrow> rnd (qty * std_grams)
      | _ \<Rightarrow> qty)"

definition no_fallback :: "rounding \<Rightarrow> base \<Rightarrow> rat \<Rightarrow> string \<Rightarrow> rat" where
  "no_fallback rnd db qty food_name = qty"

definition to_grams_with ::
  "(rounding \<Rightarrow> base \<Rightarrow> rat \<Rightarrow> string \<Rightarrow> rat) \<Rightarrow> rounding \<Rightarrow> base \<Rightarrow> string \<Rightarrow> rat \<Rightarrow> string \<Rightarrow> rat" where
  "to_grams_with otherwise rnd db unit qty food_name =
     (if unit = ''kg'' then rnd (qty * 1000)
      else if unit = ''cl'' then rnd (qty * 10)
      else if unit = ''l'' then rnd (qty * 1000)
      else if unit = ''ml'' then qty
      else if unit \<in> set [''g'', ''gr'', ''gramme'', ''grammes'', ''''] then
        (if unit = '''' \<and> qty \<le> 20 then
           (case find_unit (STANDARD_UNITS db) food_name of
              None \<Rightarrow> otherwise rnd db qty food_name
            | Some unit_grams \<Rightarrow>
                if unit_grams \<noteq> 0 then rnd (qty * unit_grams)
                else otherwise rnd db qty food_name)
         else qty)
      else qty)"

definition to_grams :: "rounding \<Rightarrow> base \<Rightarrow> string \<Rightarrow> rat \<Rightarrow> string \<Rightarrow> rat" where
  "to_grams = to_grams_with fallback"

text \<open>The lookup in the base and the macros for the qty.\<close>

definition resolve :: "rounding \<Rightarrow> base \<Rightarrow> string \<Rightarrow> rat \<Rightarrow> parsed" where
  "resolve rnd db food_name grams =
     (case get_food_info db food_name of
        Some (k, prot, lip, gluc) \<Rightarrow>
          (let ratio = rnd (grams / 100) in
           (food_name, grams,
            Some \<lparr>kcal = rnd (k * ratio), proteines = rnd (prot * ratio),
                  lipides = rnd (lip * ratio), glucides = rnd (gluc * ratio)\<rparr>))
      | None \<Rightarrow> (food_name, grams, None))"

text \<open>The body of the loop over the items: nothing, or one declaration.\<close>

definition parse_item_with ::
  "(rounding \<Rightarrow> base \<Rightarrow> rat \<Rightarrow> string \<Rightarrow> rat) \<Rightarrow> rounding \<Rightarrow> base \<Rightarrow> string \<Rightarrow> parsed list" where
  "parse_item_with otherwise rnd db item =
     (case match_item item of
        None \<Rightarrow> []
      | Some (name, quantity_text, unit) \<Rightarrow>
          (let food_name = strip name;
               qty = float_of rnd (replace_comma quantity_text);
               grams = to_grams_with otherwise rnd db unit qty food_name
           in [resolve rnd db food_name grams]))"

text \<open>The items of a message: the pieces between the separators, stripped, the empty ones left out.\<close>

definition items_of :: "string \<Rightarrow> string list" where
  "items_of text = filter (\<lambda>item. item \<noteq> []) (map strip (re_split separator (strip (lower text))))"

definition parse_food_entry_with ::
  "(rounding \<Rightarrow> base \<Rightarrow> rat \<Rightarrow> string \<Rightarrow> rat) \<Rightarrow> rounding \<Rightarrow> base \<Rightarrow> string \<Rightarrow> parsed list" where
  "parse_food_entry_with otherwise rnd db text =
     concat (map (parse_item_with otherwise rnd db) (items_of text))"

definition parse_food_entry :: "rounding \<Rightarrow> base \<Rightarrow> string \<Rightarrow> parsed list" where
  "parse_food_entry = parse_food_entry_with fallback"

text \<open>The parser without the branch that looks the exact name up (C10).\<close>

definition parse_food_entry_without_fallback :: "rounding \<Rightarrow> base \<Rightarrow> string \<Rightarrow> parsed list" where
  "parse_food_entry_without_fallback = parse_food_entry_with no_fallback"

text \<open>The handler of text messages.\<close>

definition handle_food_message ::
  "rounding \<Rightarrow> base \<Rightarrow> string \<Rightarrow> string \<Rightarrow> string \<Rightarrow> bot \<Rightarrow> error + reply \<times> bot" where
  "handle_food_message rnd db today now text s =
     (if take 1 text = ''/'' then Inr (Ignored, s)
      else record_parsed rnd today now (parse_food_entry rnd db text) s)"

section \<open>The quick add\<close>

text \<open>
  \<^verbatim>\<open>(\d+(?:[.,]\d+)?)\s*(g|gr|grammes?)\s+(\d+(?:[.,]\d+)?)\s*kcal\s+(\d+(?:[.,]\d+)?)\s*p\s+(\d+(?:[.,]\d+)?)\s*l\s+(\d+(?:[.,]\d+)?)\s*g\<close>
  and the same without the quantity.
\<close>

definition macros_pattern :: "nat \<Rightarrow> regex" where
  "macros_pattern n =
     Seq (Grp (n + 1) number) (Seq (Many is_space) (Seq (Lit ''kcal'') (Seq (Many1 is_space)
       (Seq (Grp (n + 2) number) (Seq (Many is_space) (Seq (Lit ''p'') (Seq (Many1 is_space)
         (Seq (Grp (n + 3) number) (Seq (Many is_space) (Seq (Lit ''l'') (Seq (Many1 is_space)
           (Seq (Grp (n + 4) number) (Seq (Many is_space) (Lit ''g''))))))))))))))"

definition quick_pattern :: regex where
  "quick_pattern =
     Seq (Grp 1 number) (Seq (Many is_space)
       (Seq (Grp 2 (Alt (Lit ''g'') (Alt (Lit ''gr'') (Seq (Lit ''gramme'') (Opt (Lit ''s''))))))
         (Seq (Many1 is_space) (macros_pattern 2))))"

definition pattern_no_qty :: regex where
  "pattern_no_qty = macros_pattern 0"

fun join_args :: "string list \<Rightarrow> string" where
  "join_args [] = []"
| "join_args [a] = a"
| "join_args (a # b # rest) = a @ '' '' @ join_args (b # rest)"

definition number_of :: "rounding \<Rightarrow> (nat \<times> string) list \<Rightarrow> nat \<Rightarrow> rat" where
  "number_of rnd m n = float_of rnd (replace_comma (group_or_empty m n))"

text \<open>
  The handler of \<open>/add\<close>.  With \<open>|\<close> in the arguments it works on the base of foods and
  leaves the journal alone, whatever it answers; that answer is \<open>BaseMode\<close> here.
\<close>

definition add_food :: "rounding \<Rightarrow> string \<Rightarrow> string \<Rightarrow> string list \<Rightarrow> bot \<Rightarrow> error + reply \<times> bot" where
  "add_food rnd today now args s =
     (let full_args = join_args args in
      if args = [] then Inr (Usage, s)
      else if CHR ''|'' \<in> set full_args then Inr (BaseMode, s)
      else case re_match quick_pattern (lower full_args) of
             Some m \<Rightarrow>
               quick_add rnd today now (number_of rnd m 1)
                 \<lparr>kcal = number_of rnd m 3, proteines = number_of rnd m 4,
                  lipides = number_of rnd m 5, glucides = number_of rnd m 6\<rparr> s
           | None \<Rightarrow>
               (case re_match pattern_no_qty (lower full_args) of
                  Some m \<Rightarrow>
                    quick_add rnd today now 100
                      \<lparr>kcal = number_of rnd m 1, proteines = number_of rnd m 2,
                       lipides = number_of rnd m 3, glucides = number_of rnd m 4\<rparr> s
                | None \<Rightarrow> Inr (BadFormat, s)))"

text \<open>The declarations with macros, and the names and grams of a list of declarations.\<close>

definition resolved :: "parsed \<Rightarrow> bool" where
  "resolved decl = (snd (snd decl) \<noteq> None)"

definition names_and_grams :: "parsed list \<Rightarrow> (string \<times> rat) list" where
  "names_and_grams decls = map (\<lambda>decl. (fst decl, fst (snd decl))) decls"

text \<open>The reply of a handler, and the foods of the entries of a day after it.\<close>

definition reply_and_foods :: "string \<Rightarrow> error + reply \<times> bot \<Rightarrow> (reply \<times> string list) option" where
  "reply_and_foods date_key r =
     (case r of
        Inl err \<Rightarrow> None
      | Inr (answer, s) \<Rightarrow> Some (answer, map food (entries (day_of s date_key))))"

section \<open>An example base\<close>

text \<open>A small base of foods for the examples: macros for 100 g and weights of one unit.\<close>

definition example_base :: base where
  "example_base =
     \<lparr>get_food_info =
        map_of [(''rice'', (130, 27 / 10, 3 / 10, 28)), (''egg'', (155, 13, 11, 1)),
                (''lait'', (47, 33 / 10, 15 / 10, 5)), (''yogurt'', (60, 4, 1, 7))],
      STANDARD_UNITS = [(''egg'', 60), (''yogurt'', 125)]\<rparr>"

section \<open>Properties of the journal\<close>

subsection \<open>Rounding of given numbers\<close>

lemma floor_numeral_div: "\<lfloor>numeral a / numeral b :: rat\<rfloor> = numeral a div numeral b"
  using floor_divide_of_int_eq [of "numeral a" "numeral b", where ?'a = rat] by simp

lemma floor_one_div: "\<lfloor>1 / numeral b :: rat\<rfloor> = 1 div numeral b"
  using floor_divide_of_int_eq [of 1 "numeral b", where ?'a = rat] by simp

lemma ceiling_numeral_div: "\<lceil>numeral a / numeral b :: rat\<rceil> = - (- numeral a div numeral b)"
  using floor_divide_of_int_eq [of "- numeral a" "numeral b", where ?'a = rat]
  by (simp add: ceiling_def)

lemma ceiling_one_div: "\<lceil>1 / numeral b :: rat\<rceil> = - (- 1 div numeral b)"
  using floor_divide_of_int_eq [of "- 1" "numeral b", where ?'a = rat]
  by (simp add: ceiling_def)

lemmas ilog2_eval = ilog2_def bit_length.simps ceiling_numeral_div ceiling_one_div
  floor_numeral_div floor_one_div

lemmas round_eval = round_half_even_def Let_def floor_numeral_div


lemma binary64_zero: "binary64 0 = 0"
  by (simp add: binary64_def)

text \<open>The floats 0.1 and 0.2, their sum, and the sum less 0.2.\<close>

lemma binary64_tenth: "binary64 (1 / 10) = 3602879701896397 / 36028797018963968"
  by (simp only: binary64_def Let_def, (simp add: ilog2_eval)?, (simp add: pow2_def)?,
      (simp add: round_eval)?)

lemma binary64_fifth: "binary64 (1 / 5) = 3602879701896397 / 18014398509481984"
  by (simp only: binary64_def Let_def, (simp add: ilog2_eval)?, (simp add: pow2_def)?,
      (simp add: round_eval)?)

lemma binary64_tenth_again: "binary64 (3602879701896397 / 36028797018963968) = 3602879701896397 / 36028797018963968"
  by (simp only: binary64_def Let_def, (simp add: ilog2_eval)?, (simp add: pow2_def)?,
      (simp add: round_eval)?)

lemma binary64_fifth_again: "binary64 (3602879701896397 / 18014398509481984) = 3602879701896397 / 18014398509481984"
  by (simp only: binary64_def Let_def, (simp add: ilog2_eval)?, (simp add: pow2_def)?,
      (simp add: round_eval)?)

lemma binary64_sum: "binary64 (10808639105689191 / 36028797018963968) = 1351079888211149 / 4503599627370496"
  by (simp only: binary64_def Let_def, (simp add: ilog2_eval)?, (simp add: pow2_def)?,
      (simp add: round_eval)?)

lemma binary64_difference: "binary64 (1801439850948199 / 18014398509481984) = 1801439850948199 / 18014398509481984"
  by (simp only: binary64_def Let_def, (simp add: ilog2_eval)?, (simp add: pow2_def)?,
      (simp add: round_eval)?)

lemmas binary64_tenths = binary64_zero binary64_tenth binary64_fifth binary64_tenth_again
  binary64_fifth_again binary64_sum binary64_difference

lemma binary64_265: "binary64 (265) = 265"
  by (simp only: binary64_def Let_def, (simp add: ilog2_eval)?, (simp add: pow2_def)?,
      (simp add: round_eval)?)

lemma binary64_9: "binary64 (9) = 9"
  by (simp only: binary64_def Let_def, (simp add: ilog2_eval)?, (simp add: pow2_def)?,
      (simp add: round_eval)?)

lemma binary64_3: "binary64 (3) = 3"
  by (simp only: binary64_def Let_def, (simp add: ilog2_eval)?, (simp add: pow2_def)?,
      (simp add: round_eval)?)

lemma binary64_49: "binary64 (49) = 49"
  by (simp only: binary64_def Let_def, (simp add: ilog2_eval)?, (simp add: pow2_def)?,
      (simp add: round_eval)?)

lemmas binary64_undo = binary64_265 binary64_9 binary64_3 binary64_49

lemmas journal_eval = check_day_def totals_after_def quick_add_def undo_def init_day_def
  append_entry_def initial_state_def day_of_def macros_sum_def macros_add_def macros_sub_def
  zero_totals_def Let_def record_parsed_def record_declaration_def append_then_undo_def

lemma init_day_today: "\<exists>d. daily_data (init_day today s) today = Some d"
  by (simp add: init_day_def split: option.splits)

lemma init_day_invariant: "invariant rnd s \<Longrightarrow> invariant rnd (init_day today s)"
  by (auto simp: invariant_def init_day_def totals_ok_def macros_sum_def split: option.splits if_splits)

lemma append_entry_invariant:
  "invariant rnd s \<Longrightarrow> append_entry rnd today e s = Inr s' \<Longrightarrow> invariant rnd s'"
  by (auto simp: invariant_def append_entry_def totals_ok_def macros_sum_def
           split: option.splits if_splits)

lemma append_entry_present:
  "daily_data s today = Some d \<Longrightarrow> \<exists>s' d'. append_entry rnd today e s = Inr s' \<and> daily_data s' today = Some d'"
  by (simp add: append_entry_def)

lemma record_declaration_invariant:
  "invariant rnd (fst acc) \<Longrightarrow> record_declaration rnd today now decl acc = Inr acc' \<Longrightarrow>
   invariant rnd (fst acc')"
  by (auto simp: record_declaration_def split: prod.splits option.splits sum.splits
           dest: append_entry_invariant)

lemma record_declarations_invariant:
  "invariant rnd (fst acc) \<Longrightarrow> record_declarations rnd today now decls acc = Inr acc' \<Longrightarrow>
   invariant rnd (fst acc')"
proof (induction decls arbitrary: acc)
  case Nil
  then show ?case by simp
next
  case (Cons decl decls)
  then show ?case
    by (auto split: sum.splits dest: record_declaration_invariant)
qed

lemma record_parsed_invariant:
  "invariant rnd s \<Longrightarrow> record_parsed rnd today now decls s = Inr (r, s') \<Longrightarrow> invariant rnd s'"
  using record_declarations_invariant [of rnd "(init_day today s, [])" today now decls]
  by (auto simp: record_parsed_def Let_def init_day_invariant split: if_splits sum.splits)

lemma quick_add_invariant:
  "invariant rnd s \<Longrightarrow> quick_add rnd today now grams m s = Inr (r, s') \<Longrightarrow> invariant rnd s'"
  by (auto simp: quick_add_def Let_def split: sum.splits
           dest: append_entry_invariant [OF init_day_invariant])

lemma macros_sub_add_exact: "macros_sub exact (macros_add exact t m) m = t"
  by (simp add: macros_sub_def macros_add_def exact_def)

lemma macros_sum_butlast:
  "es \<noteq> [] \<Longrightarrow>
   macros_sub exact (macros_sum exact (map macros es)) (macros (last es)) =
   macros_sum exact (map macros (butlast es))"
proof -
  assume "es \<noteq> []"
  then have "es = butlast es @ [last es]" by simp
  then have "macros_sum exact (map macros es) =
             macros_add exact (macros_sum exact (map macros (butlast es))) (macros (last es))"
    by (metis (no_types) foldl_Cons foldl_Nil foldl_append list.simps(8,9) macros_sum_def map_append)
  then show ?thesis by (simp add: macros_sub_add_exact)
qed

lemma undo_invariant_exact:
  assumes "invariant exact s" and "undo exact today s = Inr (r, s')"
  shows "invariant exact s'"
proof -
  let ?s1 = "init_day today s"
  have inv1: "invariant exact ?s1" using assms(1) by (rule init_day_invariant)
  obtain d where d: "daily_data ?s1 today = Some d" using init_day_today by blast
  have ok: "totals_ok exact d" using inv1 d by (simp add: invariant_def)
  show ?thesis
  proof (cases "entries d = []")
    case True
    then have "s' = ?s1" using assms(2) d by (simp add: undo_def Let_def)
    then show ?thesis using inv1 by simp
  next
    case False
    then have s': "s' = ?s1\<lparr>daily_data := (daily_data ?s1)(today \<mapsto>
                      \<lparr>entries = butlast (entries d),
                       totals = macros_sub exact (totals d) (macros (last (entries d)))\<rparr>)\<rparr>"
      using assms(2) d by (simp add: undo_def Let_def)
    have "totals_ok exact \<lparr>entries = butlast (entries d),
                       totals = macros_sub exact (totals d) (macros (last (entries d)))\<rparr>"
      using ok False by (simp add: totals_ok_def macros_sum_butlast)
    then show ?thesis using inv1 by (auto simp: s' invariant_def)
  qed
qed

lemma midnight_reset_invariant: "invariant rnd s \<Longrightarrow> invariant rnd (midnight_reset strptime now s)"
  by (auto simp: invariant_def midnight_reset_def split: if_splits)

lemma step_invariant:
  assumes "invariant rnd s" and "rnd = exact \<or> \<not> is_undo x" and "step rnd x s = Inr s'"
  shows "invariant rnd s'"
proof (cases x)
  case (Message today now decls)
  then show ?thesis using assms record_parsed_invariant [of rnd s today now decls]
    by (cases "record_parsed rnd today now decls s") auto
next
  case (QuickAdd today now grams m)
  then show ?thesis using assms quick_add_invariant [of rnd s today now grams m]
    by (cases "quick_add rnd today now grams m s") auto
next
  case (Undo today)
  then show ?thesis using assms undo_invariant_exact [of s today]
    by (cases "undo exact today s") auto
next
  case (Status today)
  then show ?thesis using assms by (auto simp: init_day_invariant)
next
  case (Reset strptime now)
  then show ?thesis using assms by (auto simp: midnight_reset_invariant)
qed

lemma record_declarations_total:
  "\<exists>d. daily_data (fst acc) today = Some d \<Longrightarrow>
   \<exists>acc'. record_declarations rnd today now decls acc = Inr acc' \<and>
          (\<exists>d. daily_data (fst acc') today = Some d)"
proof (induction decls arbitrary: acc)
  case Nil
  then show ?case by simp
next
  case (Cons decl decls)
  obtain food_name grams mo where decl: "decl = (food_name, grams, mo)" by (cases decl) auto
  obtain s nf where acc: "acc = (s, nf)" by (cases acc) auto
  from Cons.prems acc obtain d where d: "daily_data s today = Some d" by auto
  have "\<exists>acc1. record_declaration rnd today now decl acc = Inr acc1 \<and>
          (\<exists>d. daily_data (fst acc1) today = Some d)"
    using d by (cases mo) (auto simp: record_declaration_def decl acc append_entry_def)
  then obtain acc1 where a1: "record_declaration rnd today now decl acc = Inr acc1"
    and p1: "\<exists>d. daily_data (fst acc1) today = Some d" by blast
  from Cons.IH [OF p1] a1 show ?case by simp
qed

lemma step_total: "\<exists>s'. step rnd x s = Inr s'"
proof (cases x)
  case (Message today now decls)
  obtain acc' where "record_declarations rnd today now decls (init_day today s, []) = Inr acc'"
    using record_declarations_total [of "(init_day today s, [])" today rnd now decls] init_day_today
    by auto
  then show ?thesis using Message by (cases acc') (simp add: record_parsed_def Let_def)
next
  case (QuickAdd today now grams m)
  obtain d where "daily_data (init_day today s) today = Some d" using init_day_today by blast
  then show ?thesis using QuickAdd by (simp add: quick_add_def Let_def append_entry_def)
next
  case (Undo today)
  obtain d where "daily_data (init_day today s) today = Some d" using init_day_today by blast
  then show ?thesis using Undo by (simp add: undo_def Let_def)
qed simp_all

lemma run_invariant:
  "invariant rnd s \<Longrightarrow> rnd = exact \<or> (\<forall>x \<in> set ops. \<not> is_undo x) \<Longrightarrow>
   \<exists>s'. run rnd ops s = Inr s' \<and> invariant rnd s'"
proof (induction ops arbitrary: s)
  case Nil
  then show ?case by simp
next
  case (Cons x ops)
  obtain s1 where s1: "step rnd x s = Inr s1" using step_total by blast
  have "invariant rnd s1" using step_invariant [OF Cons.prems(1) _ s1] Cons.prems(2) by auto
  then show ?case using Cons.IH [of s1] Cons.prems(2) s1 by auto
qed

subsection \<open>The totals and the entries of a day\<close>

text \<open>
  C1 (amended).  Every operation changes the entries of a day and its totals in the same
  step and never fails.  After any run of food messages, quick adds, status reads and
  midnight resets the totals of every day are the sum of the macros of its entries,
  taken in the order of the entries with the program's own rounding.  With \<open>/undo\<close> in
  the run the same holds in exact arithmetic.
\<close>

theorem totals_invariant:
  "rnd = exact \<or> (\<forall>x \<in> set ops. \<not> is_undo x) \<Longrightarrow>
   \<exists>s. run rnd ops initial_state = Inr s \<and> invariant rnd s"
proof -
  assume h: "rnd = exact \<or> (\<forall>x \<in> set ops. \<not> is_undo x)"
  have "invariant rnd initial_state" by (simp add: invariant_def initial_state_def)
  then show ?thesis using h by (rule run_invariant)
qed

theorem totals_invariant_witness:
  "(exact = exact \<or>
     (\<forall>x \<in> set [QuickAdd ''2024-05-01'' ''12:00'' 30
                      \<lparr>kcal = 150, proteines = 10, lipides = 5, glucides = 8\<rparr>,
                   Undo ''2024-05-01'']. \<not> is_undo x)) \<and>
   (\<exists>s. run exact [QuickAdd ''2024-05-01'' ''12:00'' 30
                      \<lparr>kcal = 150, proteines = 10, lipides = 5, glucides = 8\<rparr>,
                   Undo ''2024-05-01''] initial_state = Inr s \<and> invariant exact s)"
  using totals_invariant [of exact "[QuickAdd ''2024-05-01'' ''12:00'' 30
                      \<lparr>kcal = 150, proteines = 10, lipides = 5, glucides = 8\<rparr>,
                   Undo ''2024-05-01'']"]
  by simp

text \<open>
  C1 as stated fails for the program's floats: after the quick adds of 0.1 and 0.2 kcal
  and one \<open>/undo\<close> the day holds the single entry of 0.1 kcal, and its total is
  \<open>(0.1 + 0.2) - 0.2\<close>, the float above 0.1.
\<close>

theorem totals_invariant_counterexample:
  "check_day binary64 ''2024-05-01''
     (run binary64
        [QuickAdd ''2024-05-01'' ''12:00'' 100
           \<lparr>kcal = binary64 (1 / 10), proteines = 0, lipides = 0, glucides = 0\<rparr>,
         QuickAdd ''2024-05-01'' ''12:01'' 100
           \<lparr>kcal = binary64 (2 / 10), proteines = 0, lipides = 0, glucides = 0\<rparr>,
         Undo ''2024-05-01'']
        initial_state) =
   Some (\<lparr>kcal = 3602879701896398 / 36028797018963968, proteines = 0, lipides = 0, glucides = 0\<rparr>,
         \<lparr>kcal = 3602879701896397 / 36028797018963968, proteines = 0, lipides = 0, glucides = 0\<rparr>)"
  by (simp add: journal_eval binary64_tenths)

subsection \<open>Undo\<close>

lemma day_of_init_day: "day_of (init_day today s) date_key = day_of s date_key"
  by (simp add: day_of_def init_day_def split: option.splits)

lemma init_day_lookup: "daily_data (init_day today s) today = Some (day_of s today)"
  by (simp add: day_of_def init_day_def split: option.splits)

text \<open>
  C2 (amended).  A food message with one resolved declaration followed at once by \<open>/undo\<close>
  never fails, undoes exactly the entry of that declaration and leaves the entry list of
  the day as it was before the message; the totals of the day become \<open>(t + m) - m\<close>, each
  operation rounded as the program rounds it.  In exact arithmetic that is \<open>t\<close>, and the
  whole journal is then what it was before the message (with the day created).
\<close>

theorem undo_after_append:
  "append_then_undo rnd today now (food_name, grams, Some m) s =
     Inr (Undone \<lparr>food = food_name, quantity = grams, macros = m, time = now\<rparr>,
          s\<lparr>daily_data := (daily_data s)(today \<mapsto>
                \<lparr>entries = entries (day_of s today),
                 totals = macros_sub rnd (macros_add rnd (totals (day_of s today)) m) m\<rparr>),
            last_entry := Some \<lparr>food = food_name, quantity = grams, macros = m, time = now\<rparr>\<rparr>)
   \<and> map_sum id (daily_data \<circ> snd)
         (append_then_undo exact today now (food_name, grams, Some m) s) =
       Inr (daily_data (init_day today s))"
  apply (simp add: append_then_undo_def record_parsed_def Let_def record_declaration_def
                   append_entry_def init_day_lookup undo_def)
  apply (auto simp: init_day_def day_of_def macros_sub_add_exact split: option.splits)
  done

text \<open>
  C2 as stated fails for the program's floats: on a day whose total is 0.1 kcal, a
  declaration of 0.2 kcal followed by \<open>/undo\<close> leaves the total \<open>(0.1 + 0.2) - 0.2\<close>,
  which is the float above 0.1.
\<close>

theorem undo_after_append_counterexample:
  "totals_after ''2024-05-01''
     (append_then_undo binary64 ''2024-05-01'' ''12:01''
        (''beurre'', 100, Some \<lparr>kcal = binary64 (2 / 10), proteines = 0, lipides = 0, glucides = 0\<rparr>)
        \<lparr>daily_data = [''2024-05-01'' \<mapsto>
            \<lparr>entries = [\<lparr>food = ''pain'', quantity = 100,
                          macros = \<lparr>kcal = binary64 (1 / 10), proteines = 0, lipides = 0, glucides = 0\<rparr>,
                          time = ''12:00''\<rparr>],
             totals = \<lparr>kcal = binary64 (1 / 10), proteines = 0, lipides = 0, glucides = 0\<rparr>\<rparr>],
         last_entry = None\<rparr>) =
   Some \<lparr>kcal = 3602879701896398 / 36028797018963968, proteines = 0, lipides = 0, glucides = 0\<rparr>
   \<and> binary64 (1 / 10) = 3602879701896397 / 36028797018963968"
  by (simp add: journal_eval binary64_tenths)

text \<open>
  C3.  \<open>/undo\<close> on a day without entries answers that there is nothing to undo and changes
  nothing but the creation of the empty day: every day reads as before.  On a day with
  entries it removes the last entry of the day, and each of the four totals of the day
  becomes the total less the value of that entry, rounded as the program rounds.  The
  last entry is the one added last, by a food message or by a quick add.
\<close>

theorem undo_last:
  "(entries (day_of s today) = [] \<longrightarrow>
      undo rnd today s = Inr (NothingToUndo, init_day today s) \<and>
      (\<forall>date_key. day_of (init_day today s) date_key = day_of s date_key) \<and>
      last_entry (init_day today s) = last_entry s)
   \<and> (entries (day_of t today) \<noteq> [] \<longrightarrow>
      undo rnd today t =
        Inr (Undone (last (entries (day_of t today))),
             t\<lparr>daily_data := (daily_data t)(today \<mapsto>
                  \<lparr>entries = butlast (entries (day_of t today)),
                   totals =
                     \<lparr>kcal = rnd (kcal (totals (day_of t today)) -
                                   kcal (macros (last (entries (day_of t today))))),
                      proteines = rnd (proteines (totals (day_of t today)) -
                                   proteines (macros (last (entries (day_of t today))))),
                      lipides = rnd (lipides (totals (day_of t today)) -
                                   lipides (macros (last (entries (day_of t today))))),
                      glucides = rnd (glucides (totals (day_of t today)) -
                                   glucides (macros (last (entries (day_of t today)))))\<rparr>\<rparr>)\<rparr>))
   \<and> map_sum id fst (append_then_undo rnd today now (food_name, grams, Some m) u) =
       Inr (Undone \<lparr>food = food_name, quantity = grams, macros = m, time = now\<rparr>)
   \<and> map_sum id fst (quick_add_then_undo rnd today now grams m v) =
       Inr (Undone \<lparr>food = ''ajout manuel ('' @ format_0f grams @ ''g)'', quantity = grams,
                    macros = m, time = now\<rparr>)"
  apply (intro conjI impI allI)
       apply (auto simp: undo_def Let_def init_day_def day_of_def record_parsed_def
                record_declaration_def append_entry_def quick_add_def append_then_undo_def
                quick_add_then_undo_def macros_sub_def
                split: option.splits sum.splits if_splits)
  done

text \<open>
  On the empty journal \<open>/undo\<close> has nothing to undo.  On a day with bread (265 kcal, 9,
  3, 49) and then butter (75 kcal, 1, 8, 0), with the totals 340, 10, 11 and 49, it
  undoes the butter and leaves the bread with the totals 265, 9, 3 and 49.
\<close>

theorem undo_last_witness:
  "entries (day_of initial_state ''2024-05-01'') = [] \<and>
   undo binary64 ''2024-05-01'' initial_state =
     Inr (NothingToUndo, init_day ''2024-05-01'' initial_state) \<and>
   entries (day_of
      \<lparr>daily_data = [''2024-05-01'' \<mapsto>
          \<lparr>entries = [\<lparr>food = ''pain'', quantity = 100,
                        macros = \<lparr>kcal = 265, proteines = 9, lipides = 3, glucides = 49\<rparr>,
                        time = ''12:00''\<rparr>,
                      \<lparr>food = ''beurre'', quantity = 10,
                        macros = \<lparr>kcal = 75, proteines = 1, lipides = 8, glucides = 0\<rparr>,
                        time = ''12:05''\<rparr>],
           totals = \<lparr>kcal = 340, proteines = 10, lipides = 11, glucides = 49\<rparr>\<rparr>],
       last_entry = None\<rparr> ''2024-05-01'') \<noteq> [] \<and>
   reply_and_foods ''2024-05-01'' (undo binary64 ''2024-05-01''
      \<lparr>daily_data = [''2024-05-01'' \<mapsto>
          \<lparr>entries = [\<lparr>food = ''pain'', quantity = 100,
                        macros = \<lparr>kcal = 265, proteines = 9, lipides = 3, glucides = 49\<rparr>,
                        time = ''12:00''\<rparr>,
                      \<lparr>food = ''beurre'', quantity = 10,
                        macros = \<lparr>kcal = 75, proteines = 1, lipides = 8, glucides = 0\<rparr>,
                        time = ''12:05''\<rparr>],
           totals = \<lparr>kcal = 340, proteines = 10, lipides = 11, glucides = 49\<rparr>\<rparr>],
       last_entry = None\<rparr>) =
     Some (Undone \<lparr>food = ''beurre'', quantity = 10,
                   macros = \<lparr>kcal = 75, proteines = 1, lipides = 8, glucides = 0\<rparr>,
                   time = ''12:05''\<rparr>, [''pain'']) \<and>
   totals_after ''2024-05-01'' (undo binary64 ''2024-05-01''
      \<lparr>daily_data = [''2024-05-01'' \<mapsto>
          \<lparr>entries = [\<lparr>food = ''pain'', quantity = 100,
                        macros = \<lparr>kcal = 265, proteines = 9, lipides = 3, glucides = 49\<rparr>,
                        time = ''12:00''\<rparr>,
                      \<lparr>food = ''beurre'', quantity = 10,
                        macros = \<lparr>kcal = 75, proteines = 1, lipides = 8, glucides = 0\<rparr>,
                        time = ''12:05''\<rparr>],
           totals = \<lparr>kcal = 340, proteines = 10, lipides = 11, glucides = 49\<rparr>\<rparr>],
       last_entry = None\<rparr>) =
     Some \<lparr>kcal = 265, proteines = 9, lipides = 3, glucides = 49\<rparr>"
  using undo_last [of initial_state "''2024-05-01''" binary64
      "\<lparr>daily_data = [''2024-05-01'' \<mapsto>
          \<lparr>entries = [\<lparr>food = ''pain'', quantity = 100,
                        macros = \<lparr>kcal = 265, proteines = 9, lipides = 3, glucides = 49\<rparr>,
                        time = ''12:00''\<rparr>,
                      \<lparr>food = ''beurre'', quantity = 10,
                        macros = \<lparr>kcal = 75, proteines = 1, lipides = 8, glucides = 0\<rparr>,
                        time = ''12:05''\<rparr>],
           totals = \<lparr>kcal = 340, proteines = 10, lipides = 11, glucides = 49\<rparr>\<rparr>],
       last_entry = None\<rparr>"]
  by (simp add: day_of_def initial_state_def reply_and_foods_def totals_after_def
        binary64_undo)

subsection \<open>Retention\<close>

text \<open>
  C8.  The reset keeps three days before today: run after midnight (the job is scheduled
  at 00:01), it deletes exactly the days whose date is strictly older than today minus 3
  days, and keeps every other day as it is, as well as \<open>last_entry\<close>.  The retention is
  the constant of the code (\<open>timedelta(days=4)\<close> before now), not a parameter.  With today
  the 10th, the day of the 5th (5 days before) is deleted and the day of the 8th (2 days
  before) is kept.
\<close>

theorem midnight_reset_retention:
  "0 < snd now \<Longrightarrow>
   daily_data (midnight_reset strptime now s) date_key =
     (case strptime date_key of
        None \<Rightarrow> daily_data s date_key
      | Some date \<Rightarrow> if date < fst now - 3 then None else daily_data s date_key)
   \<and> last_entry (midnight_reset strptime now s) = last_entry s"
  by (auto simp: midnight_reset_def before_cutoff_def split: option.splits)

theorem midnight_reset_retention_witness:
  "0 < snd (739016 :: int, 60000000 :: nat) \<and>
   daily_data (midnight_reset
       (map_of [(''2024-05-05'', 739011), (''2024-05-08'', 739014), (''2024-05-10'', 739016)])
       (739016, 60000000)
       \<lparr>daily_data = [''2024-05-05'' \<mapsto> \<lparr>entries = [], totals = zero_totals\<rparr>,
                      ''2024-05-08'' \<mapsto> \<lparr>entries = [], totals = zero_totals\<rparr>],
        last_entry = None\<rparr>) ''2024-05-05'' = None \<and>
   daily_data (midnight_reset
       (map_of [(''2024-05-05'', 739011), (''2024-05-08'', 739014), (''2024-05-10'', 739016)])
       (739016, 60000000)
       \<lparr>daily_data = [''2024-05-05'' \<mapsto> \<lparr>entries = [], totals = zero_totals\<rparr>,
                      ''2024-05-08'' \<mapsto> \<lparr>entries = [], totals = zero_totals\<rparr>],
        last_entry = None\<rparr>) ''2024-05-08'' = Some \<lparr>entries = [], totals = zero_totals\<rparr>"
  using midnight_reset_retention [of "(739016, 60000000)"
       "map_of [(''2024-05-05'', 739011), (''2024-05-08'', 739014), (''2024-05-10'', 739016)]"
       "\<lparr>daily_data = [''2024-05-05'' \<mapsto> \<lparr>entries = [], totals = zero_totals\<rparr>,
                      ''2024-05-08'' \<mapsto> \<lparr>entries = [], totals = zero_totals\<rparr>],
        last_entry = None\<rparr>" "''2024-05-05''"]
    midnight_reset_retention [of "(739016, 60000000)"
       "map_of [(''2024-05-05'', 739011), (''2024-05-08'', 739014), (''2024-05-10'', 739016)]"
       "\<lparr>daily_data = [''2024-05-05'' \<mapsto> \<lparr>entries = [], totals = zero_totals\<rparr>,
                      ''2024-05-08'' \<mapsto> \<lparr>entries = [], totals = zero_totals\<rparr>],
        last_entry = None\<rparr>" "''2024-05-08''"]
  by simp

section \<open>Properties of the parser\<close>

subsection \<open>The items, matches and numbers of the examples\<close>

lemma items_and: "items_of ''200g rice, 2 eggs and 1 yogurt'' = [''200g rice'', ''2 eggs and 1 yogurt'']"
  by code_simp

lemma items_et: "items_of ''200g rice, 2 eggs et 1 yogurt'' = [''200g rice'', ''2 eggs'', ''1 yogurt'']"
  by code_simp

lemma items_lait: "items_of ''1.5l lait'' = [''1.5l lait'']"
  by code_simp

lemma items_comma: "items_of ''1,5l'' = [''1'', ''5l'']"
  by code_simp

lemma items_point: "items_of ''1.5l'' = [''1.5l'']"
  by code_simp

lemma items_eggs: "items_of ''2 eggs'' = [''2 eggs'']"
  by code_simp

lemma items_egg: "items_of ''2 egg'' = [''2 egg'']"
  by code_simp

lemma items_unicorn: "items_of ''200g unicornmeat'' = [''200g unicornmeat'']"
  by code_simp

lemma items_mixed: "items_of ''200g rice, 200g unicornmeat'' = [''200g rice'', ''200g unicornmeat'']"
  by code_simp

lemma match_rice: "match_item ''200g rice'' = Some (''rice'', ''200'', ''g'')"
  by code_simp

lemma match_eggs: "match_item ''2 eggs'' = Some (''eggs'', ''2'', [])"
  by code_simp

lemma match_egg: "match_item ''2 egg'' = Some (''egg'', ''2'', [])"
  by code_simp

lemma match_yogurt: "match_item ''1 yogurt'' = Some (''yogurt'', ''1'', [])"
  by code_simp

lemma match_and: "match_item ''2 eggs and 1 yogurt'' = Some (''eggs and 1 yogurt'', ''2'', [])"
  by code_simp

lemma match_lait: "match_item ''1.5l lait'' = Some (''lait'', ''1.5'', ''l'')"
  by code_simp

lemma match_lait_comma: "match_item ''1,5l lait'' = Some (''lait'', ''1,5'', ''l'')"
  by code_simp

lemma match_one: "match_item ''1'' = None"
  by code_simp

lemma match_5l: "match_item ''5l'' = Some (''l'', ''5'', [])"
  by code_simp

lemma match_15l: "match_item ''1.5l'' = Some (''l'', ''1.5'', [])"
  by code_simp

lemma match_unicorn: "match_item ''200g unicornmeat'' = Some (''unicornmeat'', ''200'', ''g'')"
  by code_simp

lemma decimal_200: "decimal_value (replace_comma ''200'') = 200"
  by code_simp

lemma decimal_2: "decimal_value (replace_comma ''2'') = 2"
  by code_simp

lemma decimal_1: "decimal_value (replace_comma ''1'') = 1"
  by code_simp

lemma decimal_5: "decimal_value (replace_comma ''5'') = 5"
  by code_simp

lemma decimal_15: "decimal_value (replace_comma ''1.5'') = 3 / 2"
  by code_simp

lemma decimal_15c: "decimal_value (replace_comma ''1,5'') = 3 / 2"
  by code_simp

lemma binary64_200: "binary64 (200) = 200"
  by (simp only: binary64_def Let_def, (simp add: ilog2_eval)?, (simp add: pow2_def)?,
      (simp add: round_eval)?)

lemma binary64_2: "binary64 (2) = 2"
  by (simp only: binary64_def Let_def, (simp add: ilog2_eval)?, (simp add: pow2_def)?,
      (simp add: round_eval)?)

lemma binary64_120: "binary64 (120) = 120"
  by (simp only: binary64_def Let_def, (simp add: ilog2_eval)?, (simp add: pow2_def)?,
      (simp add: round_eval)?)

lemma binary64_1: "binary64 (1) = 1"
  by (simp only: binary64_def Let_def, (simp add: ilog2_eval)?, (simp add: pow2_def)?,
      (simp add: round_eval)?)

lemma binary64_125: "binary64 (125) = 125"
  by (simp only: binary64_def Let_def, (simp add: ilog2_eval)?, (simp add: pow2_def)?,
      (simp add: round_eval)?)

lemma binary64_5: "binary64 (5) = 5"
  by (simp only: binary64_def Let_def, (simp add: ilog2_eval)?, (simp add: pow2_def)?,
      (simp add: round_eval)?)

lemma binary64_3_over_2: "binary64 (3 / 2) = 3 / 2"
  by (simp only: binary64_def Let_def, (simp add: ilog2_eval)?, (simp add: pow2_def)?,
      (simp add: round_eval)?)

lemma binary64_1500: "binary64 (1500) = 1500"
  by (simp only: binary64_def Let_def, (simp add: ilog2_eval)?, (simp add: pow2_def)?,
      (simp add: round_eval)?)

lemma binary64_15: "binary64 (15) = 15"
  by (simp only: binary64_def Let_def, (simp add: ilog2_eval)?, (simp add: pow2_def)?,
      (simp add: round_eval)?)

lemma binary64_705: "binary64 (705) = 705"
  by (simp only: binary64_def Let_def, (simp add: ilog2_eval)?, (simp add: pow2_def)?,
      (simp add: round_eval)?)

lemma binary64_99_over_2: "binary64 (99 / 2) = 99 / 2"
  by (simp only: binary64_def Let_def, (simp add: ilog2_eval)?, (simp add: pow2_def)?,
      (simp add: round_eval)?)

lemma binary64_45_over_2: "binary64 (45 / 2) = 45 / 2"
  by (simp only: binary64_def Let_def, (simp add: ilog2_eval)?, (simp add: pow2_def)?,
      (simp add: round_eval)?)

lemma binary64_75: "binary64 (75) = 75"
  by (simp only: binary64_def Let_def, (simp add: ilog2_eval)?, (simp add: pow2_def)?,
      (simp add: round_eval)?)

lemma binary64_30: "binary64 (30) = 30"
  by (simp only: binary64_def Let_def, (simp add: ilog2_eval)?, (simp add: pow2_def)?,
      (simp add: round_eval)?)

lemma binary64_150: "binary64 (150) = 150"
  by (simp only: binary64_def Let_def, (simp add: ilog2_eval)?, (simp add: pow2_def)?,
      (simp add: round_eval)?)

lemma binary64_10: "binary64 (10) = 10"
  by (simp only: binary64_def Let_def, (simp add: ilog2_eval)?, (simp add: pow2_def)?,
      (simp add: round_eval)?)

lemma binary64_8: "binary64 (8) = 8"
  by (simp only: binary64_def Let_def, (simp add: ilog2_eval)?, (simp add: pow2_def)?,
      (simp add: round_eval)?)

lemma binary64_100: "binary64 (100) = 100"
  by (simp only: binary64_def Let_def, (simp add: ilog2_eval)?, (simp add: pow2_def)?,
      (simp add: round_eval)?)

lemmas binary64_small = binary64_200 binary64_2 binary64_120 binary64_1 binary64_125 binary64_5 binary64_3_over_2 binary64_1500 binary64_15 binary64_705 binary64_99_over_2 binary64_45_over_2 binary64_75 binary64_30 binary64_150 binary64_10 binary64_8 binary64_100

lemmas parser_eval = parse_food_entry_def parse_food_entry_with_def parse_item_with_def
  to_grams_with_def fallback_def resolve_def example_base_def float_of_def strip_def
  is_space_def names_and_grams_def Let_def

lemmas regex_facts = items_and items_et items_lait items_comma items_point items_eggs items_egg items_unicorn items_mixed match_rice match_eggs match_egg match_yogurt match_and match_lait match_lait_comma match_one match_5l match_15l match_unicorn decimal_200 decimal_2 decimal_1 decimal_5 decimal_15 decimal_15c

lemma quick_with_grams: "re_match quick_pattern (lower (join_args [''30g'', ''150kcal'', ''10p'', ''5l'', ''8g''])) =
   Some [(6, ''8''), (5, ''5''), (4, ''10''), (3, ''150''), (2, ''g''), (1, ''30'')]"
  by code_simp

lemma quick_without_grams: "re_match quick_pattern (lower (join_args [''150kcal'', ''10p'', ''5l'', ''8g''])) = None"
  by code_simp

lemma quick_no_qty: "re_match pattern_no_qty (lower (join_args [''150kcal'', ''10p'', ''5l'', ''8g''])) =
   Some [(4, ''8''), (3, ''5''), (2, ''10''), (1, ''150'')]"
  by code_simp

lemma decimal_30: "decimal_value (replace_comma ''30'') = 30"
  by code_simp

lemma decimal_150: "decimal_value (replace_comma ''150'') = 150"
  by code_simp

lemma decimal_10: "decimal_value (replace_comma ''10'') = 10"
  by code_simp

lemma decimal_8: "decimal_value (replace_comma ''8'') = 8"
  by code_simp

lemma format_30: "format_0f 30 = ''30''"
  by code_simp

lemma format_100: "format_0f 100 = ''100''"
  by code_simp

lemmas quick_facts = quick_with_grams quick_without_grams quick_no_qty decimal_30 decimal_150 decimal_10 decimal_5 decimal_8 format_30 format_100

subsection \<open>The standard units\<close>

lemma occurs_in_refl: "occurs_in a a"
  by (cases a) simp_all

lemma find_unit_None: "find_unit std food_name = None \<Longrightarrow> map_of std food_name = None"
  by (induction std food_name rule: find_unit.induct) (auto simp: occurs_in_refl split: if_splits)

lemma find_unit_Some: "find_unit std food_name = Some w \<Longrightarrow> \<exists>n. (n, w) \<in> set std"
  by (induction std food_name rule: find_unit.induct) (auto split: if_splits)

lemma to_grams_without_fallback:
  assumes "\<forall>(n, w) \<in> set (STANDARD_UNITS db). w \<noteq> 0"
  shows "to_grams_with no_fallback rnd db unit qty food_name = to_grams_with fallback rnd db unit qty food_name"
proof (cases "find_unit (STANDARD_UNITS db) food_name")
  case None
  then have "map_of (STANDARD_UNITS db) food_name = None" by (rule find_unit_None)
  then show ?thesis using None
    by (simp add: to_grams_with_def fallback_def no_fallback_def split: option.splits)
next
  case (Some w)
  then obtain n where "(n, w) \<in> set (STANDARD_UNITS db)" using find_unit_Some by blast
  then have "w \<noteq> 0" using assms by auto
  then show ?thesis using Some by (simp add: to_grams_with_def)
qed

lemma parse_item_without_fallback:
  assumes "\<forall>(n, w) \<in> set (STANDARD_UNITS db). w \<noteq> 0"
  shows "parse_item_with no_fallback rnd db = parse_item_with fallback rnd db"
  by (rule ext)
     (simp add: parse_item_with_def Let_def to_grams_without_fallback [OF assms]
           split: option.splits prod.splits)

lemma record_declarations_filter:
  "map_sum id fst (record_declarations rnd today now decls (s, nf)) =
   map_sum id fst (record_declarations rnd today now (filter resolved decls) (s, nf'))"
proof (induction decls arbitrary: s nf nf')
  case Nil
  then show ?case by simp
next
  case (Cons decl decls)
  obtain food_name grams mo where decl: "decl = (food_name, grams, mo)" by (cases decl) auto
  show ?case
  proof (cases mo)
    case None
    then show ?thesis using Cons.IH [of s "nf @ [food_name]" nf']
      by (simp add: decl resolved_def record_declaration_def)
  next
    case (Some m)
    show ?thesis
    proof (cases "append_entry rnd today \<lparr>food = food_name, quantity = grams, macros = m, time = now\<rparr> s")
      case (Inl err)
      then show ?thesis by (simp add: decl Some resolved_def record_declaration_def)
    next
      case (Inr s')
      then show ?thesis using Cons.IH [of s' nf nf']
        by (simp add: decl Some resolved_def record_declaration_def)
    qed
  qed
qed


lemma record_parsed_state:
  "map_sum id snd (record_parsed rnd today now decls s) =
   map_sum id fst (record_declarations rnd today now decls (init_day today s, []))"
  by (cases decls) (auto simp: record_parsed_def Let_def split: sum.splits)


text \<open>
  A standard unit of weight zero is what the lookup under the exact name is for: the loop
  stops at it, \<open>if unit_grams:\<close> fails, and the weight stored under the name of the food
  is used.
\<close>

lemma fallback_with_zero_weight:
  "to_grams_with fallback exact
     \<lparr>get_food_info = map_of [(''oeuf'', (155, 13, 11, 1))],
      STANDARD_UNITS = [(''oe'', 0), (''oeuf'', 60)]\<rparr> [] 2 ''oeuf'' = 120 \<and>
   to_grams_with no_fallback exact
     \<lparr>get_food_info = map_of [(''oeuf'', (155, 13, 11, 1))],
      STANDARD_UNITS = [(''oe'', 0), (''oeuf'', 60)]\<rparr> [] 2 ''oeuf'' = 2"
  by (simp add: to_grams_with_def fallback_def no_fallback_def exact_def)

text \<open>
  C10.  With standard units that all weigh something, the branch that looks the exact
  name of the food up is never the one that decides: the parser without it gives the
  same declarations for every message.
\<close>

theorem fallback_unreachable:
  assumes "\<forall>(n, w) \<in> set (STANDARD_UNITS db). w \<noteq> 0"
  shows "parse_food_entry_without_fallback rnd db text = parse_food_entry rnd db text"
  by (simp add: parse_food_entry_without_fallback_def parse_food_entry_def
        parse_food_entry_with_def parse_item_without_fallback [OF assms])

theorem fallback_unreachable_witness:
  "STANDARD_UNITS example_base = [(''egg'', 60), (''yogurt'', 125)] \<and>
   parse_food_entry_without_fallback binary64 example_base ''2 egg'' =
   parse_food_entry binary64 example_base ''2 egg''"
  using fallback_unreachable [of example_base binary64 "''2 egg''"]
  by (simp add: example_base_def)









subsection \<open>The decimal separator\<close>

lemma items_lait_comma: "items_of ''1,5l lait'' = [''1'', ''5l lait'']"
  by code_simp

lemma match_5l_lait: "match_item ''5l lait'' = Some (''lait'', ''5'', ''l'')"
  by code_simp

lemma binary64_5000: "binary64 (5000) = 5000"
  by (simp only: binary64_def Let_def, (simp add: ilog2_eval)?, (simp add: pow2_def)?,
      (simp add: round_eval)?)

text \<open>
  C4.  The number pattern accepts a point or a comma and the conversion turns the comma
  into a point, so both are meant to give the same value.  In a food message they do
  not: the comma separates items before the number is read.  "1.5l lait" is one
  declaration of 1500 g of milk.  "1,5l lait" is the items "1", which is dropped, and
  "5l lait", one declaration of 5000 g.  The messages "1,5l" and "1.5l" of the claim,
  which have no food behind the unit, give 5 and 1.5 of a food named "l".
\<close>

theorem decimal_comma_splits:
  "names_and_grams (parse_food_entry binary64 example_base ''1.5l lait'') = [(''lait'', 1500)] \<and>
   items_of ''1,5l lait'' = [''1'', ''5l lait''] \<and>
   names_and_grams (parse_food_entry binary64 example_base ''1,5l lait'') = [(''lait'', 5000)] \<and>
   parse_food_entry binary64 example_base ''1,5l'' = [(''l'', 5, None)] \<and>
   parse_food_entry binary64 example_base ''1.5l'' = [(''l'', 3 / 2, None)]"
  by (simp add: parser_eval regex_facts binary64_small items_lait_comma match_5l_lait
        binary64_5000)

subsection \<open>The items of a message\<close>



subsection \<open>Foods that are not in the base\<close>

text \<open>
  C7.  A food that is not in the base still gives a declaration, with its name and its
  grams and without macros.  The handler adds no entry for it and leaves the journal as
  it is, noting the name as not found; the journal after a message is the one that the
  declarations with macros alone would give.  "200g unicornmeat" gives one declaration
  of 200 g without macros, and in "200g rice, 200g unicornmeat" the rice is recorded.
\<close>

theorem unresolved_food:
  "(match_item item = Some (name, quantity_text, unit) \<longrightarrow>
    get_food_info db (strip name) = None \<longrightarrow>
      parse_item_with fallback rnd db item =
        [(strip name,
          to_grams rnd db unit (float_of rnd (replace_comma quantity_text)) (strip name),
          None)]) \<and>
   record_declaration rnd today now (food_name, grams, None) (s, not_found) =
     Inr (s, not_found @ [food_name]) \<and>
   map_sum id snd (record_parsed rnd today now decls s) =
     map_sum id snd (record_parsed rnd today now (filter resolved decls) s) \<and>
   parse_food_entry binary64 example_base ''200g unicornmeat'' = [(''unicornmeat'', 200, None)] \<and>
   reply_and_foods ''2024-05-01''
     (handle_food_message binary64 example_base ''2024-05-01'' ''12:00''
        ''200g rice, 200g unicornmeat'' initial_state) =
     Some (Recorded [''unicornmeat''], [''rice''])"
proof (intro conjI impI)
  assume "match_item item = Some (name, quantity_text, unit)"
    and "get_food_info db (strip name) = None"
  then show "parse_item_with fallback rnd db item =
        [(strip name,
          to_grams rnd db unit (float_of rnd (replace_comma quantity_text)) (strip name),
          None)]"
    by (simp add: parse_item_with_def resolve_def to_grams_def Let_def)
next
  show "record_declaration rnd today now (food_name, grams, None) (s, not_found) =
     Inr (s, not_found @ [food_name])"
    by (simp add: record_declaration_def)
next
  show "map_sum id snd (record_parsed rnd today now decls s) =
     map_sum id snd (record_parsed rnd today now (filter resolved decls) s)"
    using record_declarations_filter [of rnd today now decls "init_day today s" "[]" "[]"]
    by (simp add: record_parsed_state)
next
  show "parse_food_entry binary64 example_base ''200g unicornmeat'' = [(''unicornmeat'', 200, None)]"
    by (simp add: parser_eval regex_facts binary64_small)
next
  show "reply_and_foods ''2024-05-01''
     (handle_food_message binary64 example_base ''2024-05-01'' ''12:00''
        ''200g rice, 200g unicornmeat'' initial_state) =
     Some (Recorded [''unicornmeat''], [''rice''])"
    by (simp add: handle_food_message_def reply_and_foods_def journal_eval parser_eval
          regex_facts binary64_small)
qed

theorem unresolved_food_witness:
  "match_item ''200g unicornmeat'' = Some (''unicornmeat'', ''200'', ''g'') \<and>
   get_food_info example_base (strip ''unicornmeat'') = None \<and>
   parse_item_with fallback binary64 example_base ''200g unicornmeat'' =
     [(''unicornmeat'', 200, None)]"
  using unresolved_food [of "''200g unicornmeat''" "''unicornmeat''" "''200''" "''g''"
      example_base binary64]
  by (simp add: parser_eval regex_facts binary64_small to_grams_def)

subsection \<open>The quick add\<close>

text \<open>
  C9.  A quick add with grams records the four numbers of the text as the macros of
  the entry, as they are, and the grams as its quantity; the totals of the day grow by
  these macros.  Without grams the quantity is 100 and the macros are again the numbers
  of the text.  "30g 150kcal 10p 5l 8g" records 150, 10, 5 and 8 for 30 g, and
  "150kcal 10p 5l 8g" the same for 100 g.
\<close>

theorem quick_add_literal:
  assumes "args \<noteq> []" and "CHR ''|'' \<notin> set (join_args args)"
  shows "(re_match quick_pattern (lower (join_args args)) = Some m \<longrightarrow>
            add_food rnd today now args s =
              quick_add rnd today now (number_of rnd m 1)
                \<lparr>kcal = number_of rnd m 3, proteines = number_of rnd m 4,
                 lipides = number_of rnd m 5, glucides = number_of rnd m 6\<rparr> s) \<and>
         (re_match quick_pattern (lower (join_args args)) = None \<longrightarrow>
          re_match pattern_no_qty (lower (join_args args)) = Some m \<longrightarrow>
            add_food rnd today now args s =
              quick_add rnd today now 100
                \<lparr>kcal = number_of rnd m 1, proteines = number_of rnd m 2,
                 lipides = number_of rnd m 3, glucides = number_of rnd m 4\<rparr> s) \<and>
         quick_add rnd today now grams mac s =
           Inr (QuickAdded \<lparr>food = ''ajout manuel ('' @ format_0f grams @ ''g)'',
                             quantity = grams, macros = mac, time = now\<rparr>,
                s\<lparr>daily_data := (daily_data s)(today \<mapsto>
                      \<lparr>entries = entries (day_of s today) @
                         [\<lparr>food = ''ajout manuel ('' @ format_0f grams @ ''g)'',
                           quantity = grams, macros = mac, time = now\<rparr>],
                       totals = macros_add rnd (totals (day_of s today)) mac\<rparr>),
                  last_entry := Some \<lparr>food = ''ajout manuel ('' @ format_0f grams @ ''g)'',
                                      quantity = grams, macros = mac, time = now\<rparr>\<rparr>)"
  using assms
  by (auto simp: add_food_def Let_def quick_add_def append_entry_def init_day_def day_of_def
           split: option.splits)

theorem quick_add_literal_witness:
  "[''30g'', ''150kcal'', ''10p'', ''5l'', ''8g''] \<noteq> [] \<and>
   CHR ''|'' \<notin> set (join_args [''30g'', ''150kcal'', ''10p'', ''5l'', ''8g'']) \<and>
   map_sum id fst (add_food binary64 ''2024-05-01'' ''12:00''
       [''30g'', ''150kcal'', ''10p'', ''5l'', ''8g''] initial_state) =
     Inr (QuickAdded \<lparr>food = ''ajout manuel (30g)'', quantity = 30,
                       macros = \<lparr>kcal = 150, proteines = 10, lipides = 5, glucides = 8\<rparr>,
                       time = ''12:00''\<rparr>) \<and>
   map_sum id fst (add_food binary64 ''2024-05-01'' ''12:00''
       [''150kcal'', ''10p'', ''5l'', ''8g''] initial_state) =
     Inr (QuickAdded \<lparr>food = ''ajout manuel (100g)'', quantity = 100,
                       macros = \<lparr>kcal = 150, proteines = 10, lipides = 5, glucides = 8\<rparr>,
                       time = ''12:00''\<rparr>)"
proof -
  have a1: "[''30g'', ''150kcal'', ''10p'', ''5l'', ''8g''] \<noteq> []" by simp
  have b1: "CHR ''|'' \<notin> set (join_args [''30g'', ''150kcal'', ''10p'', ''5l'', ''8g''])" by simp
  have a2: "[''150kcal'', ''10p'', ''5l'', ''8g''] \<noteq> []" by simp
  have b2: "CHR ''|'' \<notin> set (join_args [''150kcal'', ''10p'', ''5l'', ''8g''])" by simp
  have with_grams:
    "add_food binary64 ''2024-05-01'' ''12:00'' [''30g'', ''150kcal'', ''10p'', ''5l'', ''8g'']
       initial_state =
     quick_add binary64 ''2024-05-01'' ''12:00''
       (number_of binary64 [(6, ''8''), (5, ''5''), (4, ''10''), (3, ''150''), (2, ''g''), (1, ''30'')] 1)
       \<lparr>kcal = number_of binary64 [(6, ''8''), (5, ''5''), (4, ''10''), (3, ''150''), (2, ''g''), (1, ''30'')] 3,
        proteines = number_of binary64 [(6, ''8''), (5, ''5''), (4, ''10''), (3, ''150''), (2, ''g''), (1, ''30'')] 4,
        lipides = number_of binary64 [(6, ''8''), (5, ''5''), (4, ''10''), (3, ''150''), (2, ''g''), (1, ''30'')] 5,
        glucides = number_of binary64 [(6, ''8''), (5, ''5''), (4, ''10''), (3, ''150''), (2, ''g''), (1, ''30'')] 6\<rparr>
       initial_state"
    using quick_add_literal [OF a1 b1] quick_with_grams by blast
  have without_grams:
    "add_food binary64 ''2024-05-01'' ''12:00'' [''150kcal'', ''10p'', ''5l'', ''8g'']
       initial_state =
     quick_add binary64 ''2024-05-01'' ''12:00'' 100
       \<lparr>kcal = number_of binary64 [(4, ''8''), (3, ''5''), (2, ''10''), (1, ''150'')] 1,
        proteines = number_of binary64 [(4, ''8''), (3, ''5''), (2, ''10''), (1, ''150'')] 2,
        lipides = number_of binary64 [(4, ''8''), (3, ''5''), (2, ''10''), (1, ''150'')] 3,
        glucides = number_of binary64 [(4, ''8''), (3, ''5''), (2, ''10''), (1, ''150'')] 4\<rparr>
       initial_state"
    using quick_add_literal [OF a2 b2] quick_without_grams quick_no_qty by blast
  show ?thesis
    unfolding with_grams without_grams
    by (simp add: number_of_def float_of_def group_or_empty_def quick_facts binary64_small
          quick_add_def append_entry_def init_day_def initial_state_def Let_def)
qed

end
